theory Spec2Isabelle
  imports Main
begin

section \<open>The passport panel form: rows, their layout and the form's wiring\<close>

text \<open>
  A shallow embedding of \<^verbatim>\<open>passport/passport_panel_form.cpp\<close>. The C++ \<^verbatim>\<open>int\<close> is
  modelled as \<^typ>\<open>int\<close>: signed overflow is undefined behaviour in C++, so the model
  covers the runs in which no sum leaves the machine range. The layout arithmetic is
  given a second time with the 32-bit wrap-around written out (\<open>resizeGetHeight32\<close>);
  the two agree wherever no result leaves the range. Mutation of a widget is explicit
  state passing: a member function takes the row and returns the updated row.
\<close>

subsection \<open>Style constants\<close>

text \<open>
  The values of \<^verbatim>\<open>styles/style_passport.h\<close> and \<^verbatim>\<open>styles/style_boxes.h\<close> are
  generated elsewhere; the functions below take them as a parameter \<open>st\<close>.
\<close>

record margins =
  m_left :: int
  m_top :: int
  m_right :: int
  m_bottom :: int

record icon =
  icon_width :: int
  icon_height :: int

record style =
  passportRowPadding :: margins
  passportRowSkip :: int
  passportRowIconSkip :: int
  passportRowReadyIcon :: icon
  passportRowEmptyIcon :: icon
  boxWideWidth :: int

subsection \<open>Text layouts and the toolkit\<close>

datatype text_style = SemiboldTextStyle | DefaultTextStyle

datatype text_options = NameTextOptions

text \<open>
  A \<^verbatim>\<open>Text\<close> object is represented by the arguments it was constructed from. Its
  wrapped height, \<^verbatim>\<open>Text::countHeight\<close>, belongs to the text shaping code, which is
  not part of this file: it is the field \<open>countHeight\<close> of the toolkit parameter.
  \<open>initialSize\<close> is the geometry a freshly constructed widget has.
\<close>

record Text =
  text_st :: text_style
  text_str :: string
  text_opts :: text_options
  text_minResizeWidth :: int

record toolkit =
  countHeight :: "Text \<Rightarrow> int \<Rightarrow> int"
  initialSize :: "int \<times> int"

text \<open>Integer division of C++: the quotient is truncated towards zero.\<close>

definition cpp_div :: "int \<Rightarrow> int \<Rightarrow> int" where
  "cpp_div a b = sgn a * sgn b * (\<bar>a\<bar> div \<bar>b\<bar>)"

subsection \<open>Calls that leave the component\<close>

text \<open>
  A click handler is a closure over the controller; the two closures of this file are
  represented by the controller call they make, with the captured index as a value.
\<close>

datatype controller_call = EditScope int | SubmitForm

text \<open>What a row asks of its widget base class: a layout pass at a width, a repaint.\<close>

datatype widget_call = Relayout int | Update

subsection \<open>PanelForm::Row\<close>

record Row =
  title :: Text
  description :: Text
  titleHeight :: int
  descriptionHeight :: int
  ready :: bool
  width :: int
  height :: int
  clickHandlers :: "controller_call list"
  widgetCalls :: "widget_call list"

definition Row_ctor :: "style \<Rightarrow> toolkit \<Rightarrow> string \<Rightarrow> string \<Rightarrow> Row" where
  "Row_ctor st tk title_str description_str =
     \<lparr> title = \<lparr> text_st = SemiboldTextStyle, text_str = title_str,
                 text_opts = NameTextOptions, text_minResizeWidth = cpp_div (boxWideWidth st) 2 \<rparr>,
       description = \<lparr> text_st = DefaultTextStyle, text_str = description_str,
                 text_opts = NameTextOptions, text_minResizeWidth = cpp_div (boxWideWidth st) 2 \<rparr>,
       titleHeight = 0,
       descriptionHeight = 0,
       ready = False,
       width = fst (initialSize tk),
       height = snd (initialSize tk),
       clickHandlers = [],
       widgetCalls = [] \<rparr>"

definition countAvailableWidth :: "style \<Rightarrow> Row \<Rightarrow> int \<Rightarrow> int" where
  "countAvailableWidth st r newWidth =
     newWidth
       - m_left (passportRowPadding st)
       - m_right (passportRowPadding st)
       - icon_width (if ready r then passportRowReadyIcon st else passportRowEmptyIcon st)
       - passportRowIconSkip st"

definition countAvailableWidth0 :: "style \<Rightarrow> Row \<Rightarrow> int" where
  "countAvailableWidth0 st r = countAvailableWidth st r (width r)"

text \<open>\<^verbatim>\<open>resizeGetHeight\<close> returns the height and the row with its two cached heights set.\<close>

definition resizeGetHeight :: "style \<Rightarrow> toolkit \<Rightarrow> Row \<Rightarrow> int \<Rightarrow> int \<times> Row" where
  "resizeGetHeight st tk r newWidth =
     (let availableWidth = countAvailableWidth st r newWidth;
          r1 = r\<lparr>titleHeight := countHeight tk (title r) availableWidth\<rparr>;
          r2 = r1\<lparr>descriptionHeight := countHeight tk (description r1) availableWidth\<rparr>;
          result = m_top (passportRowPadding st)
            + titleHeight r2
            + passportRowSkip st
            + descriptionHeight r2
            + m_bottom (passportRowPadding st)
      in (result, r2))"

text \<open>
  Modelled from the spec: \<^verbatim>\<open>resizeToWidth\<close> is a member of the widget base class
  (\<^verbatim>\<open>Ui::RpWidget\<close>), whose code is not in this file. The spec calls it the re-layout
  pass: it runs \<^verbatim>\<open>resizeGetHeight\<close> at the given width and gives the widget that
  width and the height returned (a row has no margins).
\<close>

definition resizeToWidth :: "style \<Rightarrow> toolkit \<Rightarrow> Row \<Rightarrow> int \<Rightarrow> Row" where
  "resizeToWidth st tk r newWidth =
     (let (h, r1) = resizeGetHeight st tk r newWidth
      in r1\<lparr>width := newWidth, height := h,
             widgetCalls := widgetCalls r1 @ [Relayout newWidth]\<rparr>)"

text \<open>Modelled from the spec: \<^verbatim>\<open>update\<close> of the widget base class asks for a repaint.\<close>

definition update :: "Row \<Rightarrow> Row" where
  "update r = r\<lparr>widgetCalls := widgetCalls r @ [Update]\<rparr>"

definition setReady :: "style \<Rightarrow> toolkit \<Rightarrow> Row \<Rightarrow> bool \<Rightarrow> Row" where
  "setReady st tk r b =
     (let r1 = r\<lparr>ready := b\<rparr>;
          r2 = resizeToWidth st tk r1 (width r1)
      in update r2)"

subsection \<open>The layout in machine arithmetic\<close>

text \<open>
  The \<^verbatim>\<open>int\<close> of the code has 32 bits. \<open>int32\<close> reduces an integer to the two's
  complement value of its low 32 bits, and \<open>add32\<close> and \<open>sub32\<close> are the machine's
  \<^verbatim>\<open>+\<close> and \<^verbatim>\<open>-\<close>. \<open>countAvailableWidth32\<close> and \<open>resizeGetHeight32\<close> are
  \<^verbatim>\<open>countAvailableWidth\<close> and \<^verbatim>\<open>resizeGetHeight\<close> with every operation of the
  source taken in this arithmetic, in the source's left-to-right order.
\<close>

definition int32 :: "int \<Rightarrow> int" where
  "int32 x = (x + 2147483648) mod 4294967296 - 2147483648"

definition int32_range :: "int \<Rightarrow> bool" where
  "int32_range x \<longleftrightarrow> - 2147483648 \<le> x \<and> x \<le> 2147483647"

definition add32 :: "int \<Rightarrow> int \<Rightarrow> int" where
  "add32 a b = int32 (a + b)"

definition sub32 :: "int \<Rightarrow> int \<Rightarrow> int" where
  "sub32 a b = int32 (a - b)"

definition countAvailableWidth32 :: "style \<Rightarrow> Row \<Rightarrow> int \<Rightarrow> int" where
  "countAvailableWidth32 st r newWidth =
     sub32 (sub32 (sub32 (sub32 newWidth
       (m_left (passportRowPadding st)))
       (m_right (passportRowPadding st)))
       (icon_width (if ready r then passportRowReadyIcon st else passportRowEmptyIcon st)))
       (passportRowIconSkip st)"

definition resizeGetHeight32 :: "style \<Rightarrow> toolkit \<Rightarrow> Row \<Rightarrow> int \<Rightarrow> int \<times> Row" where
  "resizeGetHeight32 st tk r newWidth =
     (let availableWidth = countAvailableWidth32 st r newWidth;
          r1 = r\<lparr>titleHeight := countHeight tk (title r) availableWidth\<rparr>;
          r2 = r1\<lparr>descriptionHeight := countHeight tk (description r1) availableWidth\<rparr>;
          result = add32 (add32 (add32 (add32
              (m_top (passportRowPadding st))
              (titleHeight r2))
              (passportRowSkip st))
              (descriptionHeight r2))
              (m_bottom (passportRowPadding st))
      in (result, r2))"

subsection \<open>Painting\<close>

datatype color = PassportRowTitleFg | PassportRowDescriptionFg

datatype paint_cmd =
    PaintRipple int int
  | SetPen color
  | DrawLeft Text int int int int
  | IconPaint icon int int int

text \<open>
  \<^verbatim>\<open>paintEvent\<close> as the list of drawing commands it issues, in order. The time stamp
  handed to the ripple animation is left out.
\<close>

definition paintEvent :: "style \<Rightarrow> Row \<Rightarrow> paint_cmd list" where
  "paintEvent st r =
     (let left = m_left (passportRowPadding st);
          availableWidth = countAvailableWidth0 st r;
          top0 = m_top (passportRowPadding st);
          top1 = top0 + (titleHeight r + passportRowSkip st);
          top2 = top1 + (descriptionHeight r + m_bottom (passportRowPadding st));
          ic = (if ready r then passportRowReadyIcon st else passportRowEmptyIcon st)
      in [ PaintRipple 0 0,
           SetPen PassportRowTitleFg,
           DrawLeft (title r) left top0 availableWidth (width r),
           SetPen PassportRowDescriptionFg,
           DrawLeft (description r) left top1 availableWidth (width r),
           IconPaint ic
             (width r - m_right (passportRowPadding st) - icon_width ic)
             (cpp_div (height r - icon_height ic) 2)
             (width r) ])"

text \<open>
  Modelled from the spec: \<^verbatim>\<open>addClickHandler\<close> and the click itself belong to the
  button base class. A handler is added after those already there, and a click runs
  the handlers in that order; the controller's calls are collected in a trace.
\<close>

definition addClickHandler :: "controller_call \<Rightarrow> Row \<Rightarrow> Row" where
  "addClickHandler h r = r\<lparr>clickHandlers := clickHandlers r @ [h]\<rparr>"

definition click :: "controller_call list \<Rightarrow> controller_call list \<Rightarrow> controller_call list" where
  "click handlers trace = trace @ handlers"

text \<open>
  The cached heights of a row agree with its state when they are the wrapped heights at
  the available width \<^verbatim>\<open>paintEvent\<close> computes, from the current flag and width.
\<close>

definition heights_in_sync :: "style \<Rightarrow> toolkit \<Rightarrow> Row \<Rightarrow> bool" where
  "heights_in_sync st tk r \<longleftrightarrow>
     titleHeight r = countHeight tk (title r) (countAvailableWidth0 st r)
     \<and> descriptionHeight r = countHeight tk (description r) (countAvailableWidth0 st r)"

subsection \<open>The controller and the labels\<close>

record Bot =
  peerName :: string
  username :: string

text \<open>
  Modelled from the spec: the controller is another file. It hands over the bot, the
  privacy policy URL and, through \<^verbatim>\<open>fillRows\<close>, one (title, description, ready)
  tuple per category: \<^verbatim>\<open>fillRows\<close> invokes the callback once per tuple, in order.
\<close>

record PanelController =
  ctl_bot :: Bot
  categories :: "(string \<times> string \<times> bool) list"
  privacyPolicyUrl :: string

definition fillRows :: "PanelController \<Rightarrow> ('s \<Rightarrow> string \<times> string \<times> bool \<Rightarrow> 's) \<Rightarrow> 's \<Rightarrow> 's" where
  "fillRows ctl callback s = foldl callback s (categories ctl)"

text \<open>Localised phrases are kept symbolic: the language key and its arguments.\<close>

datatype lang_text =
    Lng_passport_request1 string
  | Lng_passport_request2
  | Lng_passport_header
  | Lng_passport_allow string
  | Lng_passport_accept_allow lang_text string
  | Lng_passport_policy string
  | TextcmdLink nat lang_text

datatype init_type = Simple | Rich

datatype label_style =
    PassportPasswordLabelBold
  | PassportPasswordLabel
  | PassportFormHeader
  | PassportFormPolicy

datatype click_handler = UrlClickHandler string

record FlatLabel =
  label_text :: lang_text
  label_init :: init_type
  label_st :: label_style
  label_links :: "(nat \<times> click_handler) list"

definition setLink :: "nat \<Rightarrow> click_handler \<Rightarrow> FlatLabel \<Rightarrow> FlatLabel" where
  "setLink n h l = l\<lparr>label_links := (n, h) # filter (\<lambda>p. fst p \<noteq> n) (label_links l)\<rparr>"

subsection \<open>PanelForm\<close>

text \<open>
  The children of the vertical layout, top to bottom. A row is owned by the layout and
  also reachable through \<^verbatim>\<open>_rows\<close>; the model keeps the row in \<open>rows\<close> and puts its
  position there into the layout.
\<close>

datatype layout_item =
    UserpicWrap Bot
  | Label FlatLabel
  | Divider
  | RowItem nat

record PanelForm =
  rows :: "Row list"
  inner :: "layout_item list"
  submitHandlers :: "controller_call list"

definition back_update :: "('a \<Rightarrow> 'a) \<Rightarrow> 'a list \<Rightarrow> 'a list" where
  "back_update f xs = (if xs = [] then [] else butlast xs @ [f (last xs)])"

text \<open>
  The lambda handed to \<^verbatim>\<open>fillRows\<close>; its state is the form and the local
  \<^verbatim>\<open>index\<close>, which the click handler copies when it is created. What the layout
  does to the geometry of a child it is given is the toolkit's business: the model adds
  the row as constructed.
\<close>

definition fillRows_callback ::
  "style \<Rightarrow> toolkit \<Rightarrow> PanelForm \<times> int \<Rightarrow> string \<times> string \<times> bool \<Rightarrow> PanelForm \<times> int" where
  "fillRows_callback st tk s tuple =
     (case s of (form, index) \<Rightarrow>
      case tuple of (title_str, description_str, rdy) \<Rightarrow>
       (let form1 = form\<lparr>inner := inner form @ [RowItem (length (rows form))],
                          rows := rows form @ [Row_ctor st tk title_str description_str]\<rparr>;
            form2 = form1\<lparr>rows := back_update (addClickHandler (EditScope index)) (rows form1)\<rparr>;
            form3 = form2\<lparr>rows := back_update (\<lambda>r. setReady st tk r rdy) (rows form2)\<rparr>
        in (form3, index + 1)))"

definition policy_label :: "PanelController \<Rightarrow> FlatLabel" where
  "policy_label ctl =
     (let bot = ctl_bot ctl;
          policyUrl = privacyPolicyUrl ctl;
          policy = \<lparr> label_text =
               (if policyUrl = []
                then Lng_passport_allow (CHR ''@'' # username bot)
                else Lng_passport_accept_allow
                       (TextcmdLink 1 (Lng_passport_policy (peerName bot)))
                       (CHR ''@'' # username bot)),
             label_init = Rich,
             label_st = PassportFormPolicy,
             label_links = [] \<rparr>
      in if policyUrl \<noteq> [] then setLink 1 (UrlClickHandler policyUrl) policy else policy)"

definition setupContent :: "style \<Rightarrow> toolkit \<Rightarrow> PanelController \<Rightarrow> PanelForm \<Rightarrow> PanelForm" where
  "setupContent st tk ctl form =
     (let bot = ctl_bot ctl;
          about1 = \<lparr> label_text = Lng_passport_request1 (peerName bot), label_init = Simple,
                     label_st = PassportPasswordLabelBold, label_links = [] \<rparr>;
          about2 = \<lparr> label_text = Lng_passport_request2, label_init = Simple,
                     label_st = PassportPasswordLabel, label_links = [] \<rparr>;
          header = \<lparr> label_text = Lng_passport_header, label_init = Simple,
                     label_st = PassportFormHeader, label_links = [] \<rparr>;
          form1 = form\<lparr>inner := inner form
                    @ [UserpicWrap bot, Label about1, Label about2, Divider, Label header]\<rparr>;
          (form2, index) = fillRows ctl (fillRows_callback st tk) (form1, 0)
      in form2\<lparr>inner := inner form2 @ [Label (policy_label ctl)]\<rparr>)"

text \<open>
  \<^verbatim>\<open>setupControls\<close>: the content, then the submit handler. The two scroll shadows
  are reactive toolkit state and carry nothing the form computes.
\<close>

definition setupControls :: "style \<Rightarrow> toolkit \<Rightarrow> PanelController \<Rightarrow> PanelForm \<Rightarrow> PanelForm" where
  "setupControls st tk ctl form =
     (let form1 = setupContent st tk ctl form
      in form1\<lparr>submitHandlers := submitHandlers form1 @ [SubmitForm]\<rparr>)"

definition PanelForm_ctor :: "style \<Rightarrow> toolkit \<Rightarrow> PanelController \<Rightarrow> PanelForm" where
  "PanelForm_ctor st tk ctl =
     setupControls st tk ctl \<lparr> rows = [], inner = [], submitHandlers = [] \<rparr>"

text \<open>A click on the row at a position, and on the submit button.\<close>

definition clickRow :: "PanelForm \<Rightarrow> nat \<Rightarrow> controller_call list \<Rightarrow> controller_call list" where
  "clickRow form i trace =
     (if i < length (rows form) then click (clickHandlers (rows form ! i)) trace else trace)"

definition clickSubmit :: "PanelForm \<Rightarrow> controller_call list \<Rightarrow> controller_call list" where
  "clickSubmit form trace = click (submitHandlers form) trace"

text \<open>
  What can happen to a row after the form is built: its ready flag is set, or the layout
  resizes it.
\<close>

datatype row_op = SetReady bool | ResizeToWidth int

definition apply_row_op :: "style \<Rightarrow> toolkit \<Rightarrow> row_op \<Rightarrow> Row \<Rightarrow> Row" where
  "apply_row_op st tk op r =
     (case op of SetReady b \<Rightarrow> setReady st tk r b | ResizeToWidth w \<Rightarrow> resizeToWidth st tk r w)"

definition apply_form_op :: "style \<Rightarrow> toolkit \<Rightarrow> PanelForm \<Rightarrow> nat \<times> row_op \<Rightarrow> PanelForm" where
  "apply_form_op st tk form jop =
     (case jop of (j, op) \<Rightarrow>
        if j < length (rows form)
        then form\<lparr>rows := (rows form)[j := apply_row_op st tk op (rows form ! j)]\<rparr>
        else form)"

subsection \<open>A sample style and text shaper\<close>

text \<open>
  Concrete values for the instances below: a shaper of fixed-width glyphs, 7 wide and
  14 high, that breaks a text into as many lines as its characters need.
\<close>

definition sample_style :: style where
  "sample_style =
     \<lparr> passportRowPadding = \<lparr> m_left = 22, m_top = 10, m_right = 22, m_bottom = 8 \<rparr>,
       passportRowSkip = 2,
       passportRowIconSkip = 12,
       passportRowReadyIcon = \<lparr> icon_width = 20, icon_height = 20 \<rparr>,
       passportRowEmptyIcon = \<lparr> icon_width = 6, icon_height = 12 \<rparr>,
       boxWideWidth = 364 \<rparr>"

definition sample_countHeight :: "Text \<Rightarrow> int \<Rightarrow> int" where
  "sample_countHeight t w =
     (let per_line = max 1 (w div 7);
          n = int (length (text_str t))
      in 14 * max 1 ((n + per_line - 1) div per_line))"

definition sample_toolkit :: toolkit where
  "sample_toolkit = \<lparr> countHeight = sample_countHeight, initialSize = (100, 30) \<rparr>"

text \<open>A shaper that answers the largest \<^verbatim>\<open>int\<close> for every text and width.\<close>

definition tall_toolkit :: toolkit where
  "tall_toolkit = \<lparr> countHeight = (\<lambda>t w. 2147483647), initialSize = (100, 30) \<rparr>"

definition sample_controller :: PanelController where
  "sample_controller =
     \<lparr> ctl_bot = \<lparr> peerName = ''Shop'', username = ''shopbot'' \<rparr>,
       categories = [(''Personal details'', ''Name, date of birth'', False),
                     (''Passport'', ''Upload a scan'', True),
                     (''Phone'', ''+1 555'', False)],
       privacyPolicyUrl = ''https://example.org/p'' \<rparr>"

section \<open>Properties\<close>

subsection \<open>Helper facts\<close>

lemma resizeGetHeight_row:
  "snd (resizeGetHeight st tk r w) =
     r\<lparr>titleHeight := countHeight tk (title r) (countAvailableWidth st r w),
       descriptionHeight := countHeight tk (description r) (countAvailableWidth st r w)\<rparr>"
  by (simp add: resizeGetHeight_def Let_def)

lemma resizeGetHeight_value:
  "fst (resizeGetHeight st tk r w) =
     m_top (passportRowPadding st)
       + countHeight tk (title r) (countAvailableWidth st r w)
       + passportRowSkip st
       + countHeight tk (description r) (countAvailableWidth st r w)
       + m_bottom (passportRowPadding st)"
  by (simp add: resizeGetHeight_def Let_def)

lemma countAvailableWidth_ready:
  "countAvailableWidth st (r\<lparr>ready := b\<rparr>) w =
     w - m_left (passportRowPadding st) - m_right (passportRowPadding st)
       - (if b then icon_width (passportRowReadyIcon st)
          else icon_width (passportRowEmptyIcon st))
       - passportRowIconSkip st"
  by (simp add: countAvailableWidth_def)

lemma resizeToWidth_eq:
  "resizeToWidth st tk r w =
     r\<lparr>titleHeight := countHeight tk (title r) (countAvailableWidth st r w),
       descriptionHeight := countHeight tk (description r) (countAvailableWidth st r w),
       width := w,
       height := fst (resizeGetHeight st tk r w),
       widgetCalls := widgetCalls r @ [Relayout w]\<rparr>"
  by (simp add: resizeToWidth_def split_def resizeGetHeight_row Let_def)

lemma setReady_eq:
  "setReady st tk r b =
     r\<lparr>titleHeight := countHeight tk (title r) (countAvailableWidth st (r\<lparr>ready := b\<rparr>) (width r)),
       descriptionHeight :=
         countHeight tk (description r) (countAvailableWidth st (r\<lparr>ready := b\<rparr>) (width r)),
       ready := b,
       height := fst (resizeGetHeight st tk (r\<lparr>ready := b\<rparr>) (width r)),
       widgetCalls := widgetCalls r @ [Relayout (width r), Update]\<rparr>"
  by (simp add: setReady_def update_def resizeToWidth_eq Let_def)

lemma resizeGetHeight_ready_only:
  "fst (resizeGetHeight st tk (r\<lparr>ready := b\<rparr>) w) =
     m_top (passportRowPadding st)
       + countHeight tk (title r) (countAvailableWidth st (r\<lparr>ready := b\<rparr>) w)
       + passportRowSkip st
       + countHeight tk (description r) (countAvailableWidth st (r\<lparr>ready := b\<rparr>) w)
       + m_bottom (passportRowPadding st)"
  by (simp add: resizeGetHeight_value)

subsection \<open>Helper facts about the machine arithmetic\<close>

lemma int32_id: "int32_range x \<Longrightarrow> int32 x = x"
  by (simp add: int32_def int32_range_def)

lemma int32_range_int32: "int32_range (int32 x)"
  by (simp add: int32_def int32_range_def)

lemma int32_add_left: "int32 (int32 x + y) = int32 (x + y)"
proof -
  have "(((x + 2147483648) mod 4294967296 - 2147483648) + y + 2147483648) mod 4294967296
      = ((x + 2147483648) mod 4294967296 + y) mod (4294967296::int)"
    by (simp add: algebra_simps)
  also have "\<dots> = (x + 2147483648 + y) mod 4294967296"
    by (rule mod_add_left_eq)
  finally show ?thesis
    by (simp add: int32_def algebra_simps)
qed

lemma int32_diff_left: "int32 (int32 x - y) = int32 (x - y)"
  using int32_add_left [of x "- y"] by simp

lemma add32_chain:
  "add32 (add32 (add32 (add32 a b) c) d) e = int32 (a + b + c + d + e)"
  by (simp add: add32_def int32_add_left)

lemma sub32_chain:
  "sub32 (sub32 (sub32 (sub32 a b) c) d) e = int32 (a - b - c - d - e)"
  by (simp add: sub32_def int32_diff_left)

lemma countAvailableWidth32_wrap:
  "countAvailableWidth32 st r w = int32 (countAvailableWidth st r w)"
  by (simp add: countAvailableWidth32_def countAvailableWidth_def sub32_chain)

lemma resizeGetHeight32_value:
  "fst (resizeGetHeight32 st tk r w) =
     int32 (m_top (passportRowPadding st)
       + countHeight tk (title r) (countAvailableWidth32 st r w)
       + passportRowSkip st
       + countHeight tk (description r) (countAvailableWidth32 st r w)
       + m_bottom (passportRowPadding st))"
  by (simp add: resizeGetHeight32_def Let_def add32_chain)

lemma resizeGetHeight32_agrees:
  assumes "int32_range (countAvailableWidth st r w)"
    and "int32_range (fst (resizeGetHeight st tk r w))"
  shows "resizeGetHeight32 st tk r w = resizeGetHeight st tk r w"
proof -
  have aw: "countAvailableWidth32 st r w = countAvailableWidth st r w"
    using assms(1) by (simp add: countAvailableWidth32_wrap int32_id)
  have "fst (resizeGetHeight32 st tk r w) = fst (resizeGetHeight st tk r w)"
    using assms(2) by (simp add: resizeGetHeight32_value aw resizeGetHeight_value int32_id)
  moreover have "snd (resizeGetHeight32 st tk r w) = snd (resizeGetHeight st tk r w)"
    by (simp add: resizeGetHeight32_def resizeGetHeight_def Let_def aw)
  ultimately show ?thesis
    by (simp add: prod_eq_iff)
qed

lemma sample_row_width32:
  "countAvailableWidth32 sample_style (Row_ctor sample_style tk t d) 300 = 238"
proof -
  have "countAvailableWidth sample_style (Row_ctor sample_style tk t d) 300 = 238"
    by (simp add: countAvailableWidth_def Row_ctor_def sample_style_def)
  moreover have "int32 238 = 238"
    by (simp add: int32_def)
  ultimately show ?thesis
    by (simp add: countAvailableWidth32_wrap)
qed

lemma sample_heights:
  "countHeight sample_toolkit
     (title (Row_ctor sample_style sample_toolkit ''Personal details'' ''Name, date of birth''))
     238 = 14"
  "countHeight sample_toolkit
     (description (Row_ctor sample_style sample_toolkit ''Personal details'' ''Name, date of birth''))
     238 = 14"
  by (simp_all add: Row_ctor_def sample_toolkit_def sample_countHeight_def Let_def)

lemma sample_paddings:
  "m_top (passportRowPadding sample_style) = 10"
  "m_bottom (passportRowPadding sample_style) = 8"
  "passportRowSkip sample_style = 2"
  by (simp_all add: sample_style_def)

subsection \<open>Helper facts about the form\<close>

lemma fillRows_callback_step:
  "fillRows_callback st tk (form, int n) (t, d, rd) =
     (form\<lparr>rows := rows form
              @ [setReady st tk (addClickHandler (EditScope (int n)) (Row_ctor st tk t d)) rd],
           inner := inner form @ [RowItem (length (rows form))]\<rparr>,
      int (Suc n))"
  by (simp add: fillRows_callback_def back_update_def Let_def)

lemma foldl_fillRows_callback:
  "foldl (fillRows_callback st tk) (form, int n) ts =
     (form\<lparr>rows := rows form
              @ map (\<lambda>(i, t, d, rd).
                   setReady st tk (addClickHandler (EditScope (int i)) (Row_ctor st tk t d)) rd)
                  (enumerate n ts),
           inner := inner form
              @ map RowItem [length (rows form) ..< length (rows form) + length ts]\<rparr>,
      int (n + length ts))"
proof (induction ts arbitrary: form n)
  case Nil
  show ?case by simp
next
  case (Cons x ts)
  obtain t d rd where x: "x = (t, d, rd)"
    by (cases x) auto
  have upt: "[m ..< m + length (x # ts)] = m # [Suc m ..< Suc m + length ts]" for m
    by (simp add: upt_conv_Cons del: upt_Suc)
  show ?case
    unfolding x foldl_Cons fillRows_callback_step Cons.IH upt [unfolded x]
    by simp
qed

lemma PanelForm_ctor_rows:
  "rows (PanelForm_ctor st tk ctl) =
     map (\<lambda>(i, t, d, rd).
            setReady st tk (addClickHandler (EditScope (int i)) (Row_ctor st tk t d)) rd)
         (enumerate 0 (categories ctl))"
  using foldl_fillRows_callback [of st tk _ 0 "categories ctl"]
  by (simp add: PanelForm_ctor_def setupControls_def setupContent_def fillRows_def Let_def
      split_def)

lemma PanelForm_ctor_inner:
  "inner (PanelForm_ctor st tk ctl) =
     [ UserpicWrap (ctl_bot ctl),
       Label \<lparr> label_text = Lng_passport_request1 (peerName (ctl_bot ctl)), label_init = Simple,
               label_st = PassportPasswordLabelBold, label_links = [] \<rparr>,
       Label \<lparr> label_text = Lng_passport_request2, label_init = Simple,
               label_st = PassportPasswordLabel, label_links = [] \<rparr>,
       Divider,
       Label \<lparr> label_text = Lng_passport_header, label_init = Simple,
               label_st = PassportFormHeader, label_links = [] \<rparr> ]
     @ map RowItem [0 ..< length (categories ctl)]
     @ [Label (policy_label ctl)]"
  using foldl_fillRows_callback [of st tk _ 0 "categories ctl"]
  by (simp add: PanelForm_ctor_def setupControls_def setupContent_def fillRows_def Let_def
      split_def)

lemma PanelForm_ctor_submit:
  "submitHandlers (PanelForm_ctor st tk ctl) = [SubmitForm]"
  using foldl_fillRows_callback [of st tk _ 0 "categories ctl"]
  by (simp add: PanelForm_ctor_def setupControls_def setupContent_def fillRows_def Let_def
      split_def)

lemma clickHandlers_setReady: "clickHandlers (setReady st tk r b) = clickHandlers r"
  by (simp add: setReady_eq)

lemma clickHandlers_apply_row_op: "clickHandlers (apply_row_op st tk op r) = clickHandlers r"
  by (cases op) (simp_all add: apply_row_op_def setReady_eq resizeToWidth_eq)

lemma map_update_same: "(map f xs)[j := f (xs ! j)] = map f xs"
  by (metis list_update_id map_update)

lemma apply_form_op_handlers:
  "map clickHandlers (rows (apply_form_op st tk form jop)) = map clickHandlers (rows form)"
  by (cases jop)
     (simp add: apply_form_op_def map_update clickHandlers_apply_row_op map_update_same)

lemma foldl_apply_form_op_handlers:
  "map clickHandlers (rows (foldl (apply_form_op st tk) form ops)) = map clickHandlers (rows form)"
  by (induction ops arbitrary: form) (simp_all add: apply_form_op_handlers)

lemma PanelForm_ctor_handlers:
  "map clickHandlers (rows (PanelForm_ctor st tk ctl))
     = map (\<lambda>i. [EditScope (int i)]) [0 ..< length (categories ctl)]"
proof (rule nth_equalityI)
  show "length (map clickHandlers (rows (PanelForm_ctor st tk ctl)))
      = length (map (\<lambda>i. [EditScope (int i)]) [0 ..< length (categories ctl)])"
    by (simp add: PanelForm_ctor_rows)
next
  fix i
  assume "i < length (map clickHandlers (rows (PanelForm_ctor st tk ctl)))"
  then have i: "i < length (categories ctl)"
    by (simp add: PanelForm_ctor_rows)
  then show "map clickHandlers (rows (PanelForm_ctor st tk ctl)) ! i
      = map (\<lambda>i. [EditScope (int i)]) [0 ..< length (categories ctl)] ! i"
    by (simp add: PanelForm_ctor_rows nth_enumerate_eq split_def clickHandlers_setReady
        addClickHandler_def Row_ctor_def)
qed

subsection \<open>Row layout\<close>

text \<open>
  C1. For every row and every width \<open>newWidth\<close>, the resize computes the available text
  width as \<open>newWidth\<close> minus the left padding, minus the right padding, minus the width
  of the icon chosen by the current ready flag (the ready icon when ready, the empty
  icon otherwise), minus the icon-to-text gap; it caches the wrapped heights of title
  and description at that width and returns top padding + title height + inter-line gap
  + description height + bottom padding.
\<close>

theorem resizeGetHeight_spec:
  fixes st :: style and tk :: toolkit and r :: Row and newWidth :: int
  defines "aw \<equiv> newWidth - m_left (passportRowPadding st) - m_right (passportRowPadding st)
                  - (if ready r then icon_width (passportRowReadyIcon st)
                     else icon_width (passportRowEmptyIcon st))
                  - passportRowIconSkip st"
  shows "countAvailableWidth st r newWidth = aw
       \<and> fst (resizeGetHeight st tk r newWidth) =
           m_top (passportRowPadding st) + countHeight tk (title r) aw
             + passportRowSkip st + countHeight tk (description r) aw
             + m_bottom (passportRowPadding st)
       \<and> titleHeight (snd (resizeGetHeight st tk r newWidth)) = countHeight tk (title r) aw
       \<and> descriptionHeight (snd (resizeGetHeight st tk r newWidth))
           = countHeight tk (description r) aw"
proof -
  have aw: "countAvailableWidth st r newWidth = aw"
    by (simp add: countAvailableWidth_def aw_def)
  show ?thesis
    using aw by (simp add: resizeGetHeight_value resizeGetHeight_row)
qed

text \<open>
  C6. The height a resize returns depends on the row only through its title, its
  description and its ready flag (and on the width): two rows that agree on these get
  the same height, and a second run on the resulting row returns the same height again.
  The only fields a resize writes are the two cached heights; title, description and
  ready flag (and every other field) stay as they were.
\<close>

theorem resizeGetHeight_pure:
  "(\<forall>r'. title r' = title r \<and> description r' = description r \<and> ready r' = ready r
        \<longrightarrow> fst (resizeGetHeight st tk r' w) = fst (resizeGetHeight st tk r w))
   \<and> fst (resizeGetHeight st tk (snd (resizeGetHeight st tk r w)) w)
       = fst (resizeGetHeight st tk r w)
   \<and> snd (resizeGetHeight st tk r w)
       = r\<lparr>titleHeight := titleHeight (snd (resizeGetHeight st tk r w)),
           descriptionHeight := descriptionHeight (snd (resizeGetHeight st tk r w))\<rparr>
   \<and> title (snd (resizeGetHeight st tk r w)) = title r
   \<and> description (snd (resizeGetHeight st tk r w)) = description r
   \<and> ready (snd (resizeGetHeight st tk r w)) = ready r"
  by (simp add: resizeGetHeight_def countAvailableWidth_def Let_def)

theorem resizeGetHeight_pure_witness:
  "fst (resizeGetHeight sample_style sample_toolkit
          ((Row_ctor sample_style sample_toolkit ''Personal details'' ''Name, date of birth'')
             \<lparr>titleHeight := 77, width := 300, clickHandlers := [EditScope 4]\<rparr>) 120)
   = fst (resizeGetHeight sample_style sample_toolkit
          (Row_ctor sample_style sample_toolkit ''Personal details'' ''Name, date of birth'') 120)
   \<and> fst (resizeGetHeight sample_style sample_toolkit
          (Row_ctor sample_style sample_toolkit ''Personal details'' ''Name, date of birth'') 120)
       = 90"
proof -
  let ?r = "Row_ctor sample_style sample_toolkit ''Personal details'' ''Name, date of birth''"
  let ?r' = "?r\<lparr>titleHeight := 77, width := 300, clickHandlers := [EditScope 4]\<rparr>"
  have same: "title ?r' = title ?r \<and> description ?r' = description ?r \<and> ready ?r' = ready ?r"
    by simp
  have "fst (resizeGetHeight sample_style sample_toolkit ?r' 120)
      = fst (resizeGetHeight sample_style sample_toolkit ?r 120)"
    using resizeGetHeight_pure [of ?r sample_style sample_toolkit 120] same by blast
  moreover have "fst (resizeGetHeight sample_style sample_toolkit ?r 120) = 90"
    by (simp add: resizeGetHeight_def countAvailableWidth_def Let_def Row_ctor_def
        sample_style_def sample_toolkit_def sample_countHeight_def)
  ultimately show ?thesis by simp
qed

text \<open>
  C9, as amended. The height is a sum of 32-bit integers, so a lower bound needs the
  sum to fit. If the text shaper never returns a negative wrapped height and the sum
  top padding + title height + inter-line gap + description height + bottom padding
  lies in the range of the 32-bit \<^verbatim>\<open>int\<close>, then at every width \<open>W\<close> (so at every
  width from any minimum on) the resize returns a height of at least top padding +
  bottom padding + inter-line gap.
\<close>

theorem resizeGetHeight32_lower_bound:
  assumes nonneg: "\<forall>t w. 0 \<le> countHeight tk t w"
    and fits: "int32_range
       (m_top (passportRowPadding st)
         + countHeight tk (title r) (countAvailableWidth32 st r W)
         + passportRowSkip st
         + countHeight tk (description r) (countAvailableWidth32 st r W)
         + m_bottom (passportRowPadding st))"
  shows "m_top (passportRowPadding st) + m_bottom (passportRowPadding st) + passportRowSkip st
           \<le> fst (resizeGetHeight32 st tk r W)"
proof -
  have "0 \<le> countHeight tk (title r) (countAvailableWidth32 st r W)"
    and "0 \<le> countHeight tk (description r) (countAvailableWidth32 st r W)"
    using nonneg by simp_all
  then show ?thesis
    by (simp add: resizeGetHeight32_value int32_id [OF fits])
qed

theorem resizeGetHeight32_lower_bound_witness:
  "(\<forall>t w. 0 \<le> countHeight sample_toolkit t w)
   \<and> int32_range
       (m_top (passportRowPadding sample_style)
         + countHeight sample_toolkit
             (title (Row_ctor sample_style sample_toolkit ''Personal details'' ''Name, date of birth''))
             (countAvailableWidth32 sample_style
               (Row_ctor sample_style sample_toolkit ''Personal details'' ''Name, date of birth'') 300)
         + passportRowSkip sample_style
         + countHeight sample_toolkit
             (description (Row_ctor sample_style sample_toolkit ''Personal details'' ''Name, date of birth''))
             (countAvailableWidth32 sample_style
               (Row_ctor sample_style sample_toolkit ''Personal details'' ''Name, date of birth'') 300)
         + m_bottom (passportRowPadding sample_style))
   \<and> m_top (passportRowPadding sample_style) + m_bottom (passportRowPadding sample_style)
       + passportRowSkip sample_style = 20
   \<and> 20 \<le> fst (resizeGetHeight32 sample_style sample_toolkit
               (Row_ctor sample_style sample_toolkit ''Personal details'' ''Name, date of birth'')
               300)"
proof -
  let ?r = "Row_ctor sample_style sample_toolkit ''Personal details'' ''Name, date of birth''"
  have nonneg: "\<forall>t w. 0 \<le> countHeight sample_toolkit t w"
    by (simp add: sample_toolkit_def sample_countHeight_def Let_def)
  have fits: "int32_range
       (m_top (passportRowPadding sample_style)
         + countHeight sample_toolkit (title ?r) (countAvailableWidth32 sample_style ?r 300)
         + passportRowSkip sample_style
         + countHeight sample_toolkit (description ?r) (countAvailableWidth32 sample_style ?r 300)
         + m_bottom (passportRowPadding sample_style))"
    by (simp add: sample_row_width32 sample_heights sample_paddings int32_range_def)
  have pad: "m_top (passportRowPadding sample_style) + m_bottom (passportRowPadding sample_style)
       + passportRowSkip sample_style = 20"
    by (simp add: sample_paddings)
  have bound: "20 \<le> fst (resizeGetHeight32 sample_style sample_toolkit ?r 300)"
    using resizeGetHeight32_lower_bound [OF nonneg fits] unfolding pad .
  show ?thesis
    using nonneg fits pad bound by blast
qed

text \<open>
  Without the range condition the bound fails: with the sample paddings (10, 8 and the
  gap 2, bound 20) and a shaper that answers 2147483647, which is not negative, the sum
  \<open>10 + 2147483647 + 2 + 2147483647 + 8\<close> wraps to 18.
\<close>

theorem resizeGetHeight32_wraps_below_bound:
  "0 \<le> countHeight tall_toolkit
          (title (Row_ctor sample_style tall_toolkit ''Personal details'' ''Name, date of birth''))
          (countAvailableWidth32 sample_style
            (Row_ctor sample_style tall_toolkit ''Personal details'' ''Name, date of birth'') 300)
   \<and> 0 \<le> countHeight tall_toolkit
          (description (Row_ctor sample_style tall_toolkit ''Personal details'' ''Name, date of birth''))
          (countAvailableWidth32 sample_style
            (Row_ctor sample_style tall_toolkit ''Personal details'' ''Name, date of birth'') 300)
   \<and> fst (resizeGetHeight32 sample_style tall_toolkit
        (Row_ctor sample_style tall_toolkit ''Personal details'' ''Name, date of birth'') 300) = 18
   \<and> m_top (passportRowPadding sample_style) + m_bottom (passportRowPadding sample_style)
       + passportRowSkip sample_style = 20
   \<and> \<not> (m_top (passportRowPadding sample_style) + m_bottom (passportRowPadding sample_style)
           + passportRowSkip sample_style
         \<le> fst (resizeGetHeight32 sample_style tall_toolkit
             (Row_ctor sample_style tall_toolkit ''Personal details'' ''Name, date of birth'') 300))"
proof -
  let ?r = "Row_ctor sample_style tall_toolkit ''Personal details'' ''Name, date of birth''"
  have tall: "countHeight tall_toolkit t w = 2147483647" for t w
    by (simp add: tall_toolkit_def)
  have wrap: "int32 4294967314 = 18"
    by (simp add: int32_def)
  have val: "fst (resizeGetHeight32 sample_style tall_toolkit ?r 300) = 18"
    by (simp add: resizeGetHeight32_value tall sample_paddings wrap)
  have pad: "m_top (passportRowPadding sample_style) + m_bottom (passportRowPadding sample_style)
       + passportRowSkip sample_style = 20"
    by (simp add: sample_paddings)
  show ?thesis
    unfolding val pad tall by simp
qed

subsection \<open>The ready flag\<close>

text \<open>
  C5. For every row and every boolean \<open>b\<close>, \<open>setReady b\<close> sets the ready flag to \<open>b\<close>
  and, with no condition on the old flag or on the icon widths, asks for a layout pass
  at the current width and then for a repaint; the cached heights it leaves are the
  wrapped heights at the available width for \<open>b\<close>. It is idempotent: a second
  \<open>setReady b\<close> issues the same two requests again and changes no other field.
\<close>

theorem setReady_relayout_idempotent:
  "ready (setReady st tk r b) = b
   \<and> widgetCalls (setReady st tk r b) = widgetCalls r @ [Relayout (width r), Update]
   \<and> titleHeight (setReady st tk r b)
       = countHeight tk (title r) (countAvailableWidth st (r\<lparr>ready := b\<rparr>) (width r))
   \<and> descriptionHeight (setReady st tk r b)
       = countHeight tk (description r) (countAvailableWidth st (r\<lparr>ready := b\<rparr>) (width r))
   \<and> setReady st tk (setReady st tk r b) b
       = (setReady st tk r b)
           \<lparr>widgetCalls := widgetCalls (setReady st tk r b) @ [Relayout (width r), Update]\<rparr>"
proof -
  have cong: "countAvailableWidth st (setReady st tk r b\<lparr>ready := b\<rparr>) (width r)
      = countAvailableWidth st (r\<lparr>ready := b\<rparr>) (width r)"
    by (simp add: countAvailableWidth_ready)
  have twice: "setReady st tk (setReady st tk r b) b
       = (setReady st tk r b)
           \<lparr>widgetCalls := widgetCalls (setReady st tk r b) @ [Relayout (width r), Update]\<rparr>"
    by (subst setReady_eq [of st tk "setReady st tk r b" b])
       (simp add: setReady_eq resizeGetHeight_ready_only countAvailableWidth_ready)
  show ?thesis
    using twice by (simp add: setReady_eq)
qed

text \<open>
  C4. For a row with fixed title, description and width that was laid out with the
  ready flag false, setting the flag to true and back to false (each call running the
  layout) restores the height, and the cached heights, of the first layout. When both
  icons have the same width, already the first toggle leaves the height as it was. In
  general the height after \<open>setReady b\<close> is the function of the new available width
  that the resize computes.
\<close>

theorem setReady_toggle_restores_height:
  fixes st :: style and tk :: toolkit and r :: Row and w :: int
  defines "r1 \<equiv> resizeToWidth st tk (r\<lparr>ready := False\<rparr>) w"
  defines "r3 \<equiv> setReady st tk (setReady st tk r1 True) False"
  shows "height r3 = height r1
       \<and> titleHeight r3 = titleHeight r1
       \<and> descriptionHeight r3 = descriptionHeight r1
       \<and> width r3 = w
       \<and> (icon_width (passportRowReadyIcon st) = icon_width (passportRowEmptyIcon st)
            \<longrightarrow> height (setReady st tk r1 True) = height r1)
       \<and> (\<forall>r' b. height (setReady st tk r' b)
            = m_top (passportRowPadding st)
              + countHeight tk (title r') (countAvailableWidth st (r'\<lparr>ready := b\<rparr>) (width r'))
              + passportRowSkip st
              + countHeight tk (description r')
                  (countAvailableWidth st (r'\<lparr>ready := b\<rparr>) (width r'))
              + m_bottom (passportRowPadding st))"
  unfolding r1_def r3_def
  by (simp add: setReady_eq resizeToWidth_eq resizeGetHeight_ready_only
      countAvailableWidth_ready)

theorem setReady_toggle_restores_height_witness:
  "height (resizeToWidth sample_style sample_toolkit
      ((Row_ctor sample_style sample_toolkit ''Personal details'' ''Name, date of birth'')
         \<lparr>ready := False\<rparr>) 120) = 90
   \<and> height (setReady sample_style sample_toolkit
       (resizeToWidth sample_style sample_toolkit
         ((Row_ctor sample_style sample_toolkit ''Personal details'' ''Name, date of birth'')
            \<lparr>ready := False\<rparr>) 120) True) = 118
   \<and> height (setReady sample_style sample_toolkit
       (setReady sample_style sample_toolkit
         (resizeToWidth sample_style sample_toolkit
           ((Row_ctor sample_style sample_toolkit ''Personal details'' ''Name, date of birth'')
              \<lparr>ready := False\<rparr>) 120) True) False) = 90
   \<and> icon_width (passportRowReadyIcon
         (sample_style\<lparr>passportRowReadyIcon := passportRowEmptyIcon sample_style\<rparr>))
       = icon_width (passportRowEmptyIcon
         (sample_style\<lparr>passportRowReadyIcon := passportRowEmptyIcon sample_style\<rparr>))
   \<and> height (setReady
         (sample_style\<lparr>passportRowReadyIcon := passportRowEmptyIcon sample_style\<rparr>)
         sample_toolkit
         (resizeToWidth
           (sample_style\<lparr>passportRowReadyIcon := passportRowEmptyIcon sample_style\<rparr>)
           sample_toolkit
           ((Row_ctor sample_style sample_toolkit ''Personal details'' ''Name, date of birth'')
              \<lparr>ready := False\<rparr>) 120) True) = 90"
proof -
  let ?r = "Row_ctor sample_style sample_toolkit ''Personal details'' ''Name, date of birth''"
  let ?st = "sample_style\<lparr>passportRowReadyIcon := passportRowEmptyIcon sample_style\<rparr>"
  have first: "height (resizeToWidth sample_style sample_toolkit (?r\<lparr>ready := False\<rparr>) 120) = 90"
    by (simp add: resizeToWidth_eq resizeGetHeight_value countAvailableWidth_def Row_ctor_def
        sample_style_def sample_toolkit_def sample_countHeight_def Let_def)
  have mid: "height (setReady sample_style sample_toolkit
       (resizeToWidth sample_style sample_toolkit (?r\<lparr>ready := False\<rparr>) 120) True) = 118"
    by (simp add: setReady_eq resizeToWidth_eq resizeGetHeight_value countAvailableWidth_def
        Row_ctor_def sample_style_def sample_toolkit_def sample_countHeight_def Let_def)
  have same: "icon_width (passportRowReadyIcon ?st) = icon_width (passportRowEmptyIcon ?st)"
    by simp
  have first': "height (resizeToWidth ?st sample_toolkit (?r\<lparr>ready := False\<rparr>) 120) = 90"
    by (simp add: resizeToWidth_eq resizeGetHeight_value countAvailableWidth_def Row_ctor_def
        sample_style_def sample_toolkit_def sample_countHeight_def Let_def)
  note a = setReady_toggle_restores_height
    [where st = sample_style and tk = sample_toolkit and r = ?r and w = 120]
  note b = setReady_toggle_restores_height
    [where st = ?st and tk = sample_toolkit and r = ?r and w = 120]
  have restored: "height (setReady sample_style sample_toolkit
       (setReady sample_style sample_toolkit
         (resizeToWidth sample_style sample_toolkit (?r\<lparr>ready := False\<rparr>) 120) True) False) = 90"
    by (rule trans [OF a [THEN conjunct1] first])
  have once: "height (setReady ?st sample_toolkit
       (resizeToWidth ?st sample_toolkit (?r\<lparr>ready := False\<rparr>) 120) True) = 90"
    by (rule trans [OF b [THEN conjunct2, THEN conjunct2, THEN conjunct2, THEN conjunct2,
          THEN conjunct1, rule_format, OF same] first'])
  show ?thesis
    using first mid restored same once by blast
qed

text \<open>
  C10. After every \<open>setReady\<close>, and after every layout pass, the cached title height
  and the cached description height are the wrapped heights of title and description at
  the available width computed from the row's current ready flag and current width:
  \<open>setReady\<close> runs the layout before it returns. So the painting that follows places
  the description below a title height computed under the flag it paints with.
\<close>

theorem cached_heights_in_sync:
  "heights_in_sync st tk (setReady st tk r b)
   \<and> heights_in_sync st tk (resizeToWidth st tk r w)
   \<and> paintEvent st (setReady st tk r b) ! 4 =
       DrawLeft (description r) (m_left (passportRowPadding st))
         (m_top (passportRowPadding st)
            + (countHeight tk (title r) (countAvailableWidth0 st (setReady st tk r b))
               + passportRowSkip st))
         (countAvailableWidth0 st (setReady st tk r b))
         (width r)"
  by (simp add: heights_in_sync_def countAvailableWidth0_def setReady_eq resizeToWidth_eq
      countAvailableWidth_def paintEvent_def Let_def)

subsection \<open>The form\<close>

text \<open>
  C3. For every sequence of (title, description, ready) tuples the controller supplies
  through \<open>fillRows\<close>, the form holds exactly one row per tuple, in call order: the
  number of rows is the number of tuples, the \<open>i\<close>-th row is the one constructed from
  the \<open>i\<close>-th tuple's title and description, given its click handler and then set to
  that tuple's ready flag, and the layout lists the rows in the same order.
\<close>

theorem rows_follow_categories:
  "length (rows (PanelForm_ctor st tk ctl)) = length (categories ctl)
   \<and> rows (PanelForm_ctor st tk ctl)
       = map (\<lambda>(i, t, d, rd).
                setReady st tk (addClickHandler (EditScope (int i)) (Row_ctor st tk t d)) rd)
             (enumerate 0 (categories ctl))
   \<and> map (\<lambda>r. (text_str (title r), text_str (description r), ready r))
         (rows (PanelForm_ctor st tk ctl))
       = categories ctl
   \<and> filter (\<lambda>x. case x of RowItem _ \<Rightarrow> True | _ \<Rightarrow> False) (inner (PanelForm_ctor st tk ctl))
       = map RowItem [0 ..< length (categories ctl)]"
proof -
  have proj: "map (\<lambda>r. (text_str (title r), text_str (description r), ready r))
         (rows (PanelForm_ctor st tk ctl)) = categories ctl"
    unfolding PanelForm_ctor_rows
    by (rule nth_equalityI)
       (simp_all add: nth_enumerate_eq split_def setReady_eq addClickHandler_def Row_ctor_def)
  have items: "filter (\<lambda>x. case x of RowItem _ \<Rightarrow> True | _ \<Rightarrow> False)
         (inner (PanelForm_ctor st tk ctl)) = map RowItem [0 ..< length (categories ctl)]"
    by (simp add: PanelForm_ctor_inner filter_map comp_def)
  show ?thesis
    using proj items by (simp add: PanelForm_ctor_rows)
qed

text \<open>
  C2. The row created for the \<open>i\<close>-th invocation of the callback (counting from zero)
  reports \<open>editScope i\<close> when clicked, whatever was done afterwards to this or any
  other row of the form (ready flags set, rows resized) and however many rows were
  created after it: the index is a value captured when the row is created.
\<close>

theorem row_click_edits_own_scope:
  assumes "i < length (categories ctl)"
  shows "clickRow (foldl (apply_form_op st tk) (PanelForm_ctor st tk ctl) ops) i trace
           = trace @ [EditScope (int i)]"
proof -
  let ?form = "foldl (apply_form_op st tk) (PanelForm_ctor st tk ctl) ops"
  have hs: "map clickHandlers (rows ?form)
      = map (\<lambda>i. [EditScope (int i)]) [0 ..< length (categories ctl)]"
    by (simp add: foldl_apply_form_op_handlers PanelForm_ctor_handlers)
  from arg_cong [OF hs, of length] have len: "length (rows ?form) = length (categories ctl)"
    by simp
  from arg_cong [OF hs, of "\<lambda>xs. xs ! i"] assms len
  have "clickHandlers (rows ?form ! i) = [EditScope (int i)]"
    by simp
  with assms len show ?thesis
    by (simp add: clickRow_def click_def)
qed

theorem row_click_edits_own_scope_witness:
  "(1::nat) < length (categories sample_controller)
   \<and> clickRow (foldl (apply_form_op sample_style sample_toolkit)
                 (PanelForm_ctor sample_style sample_toolkit sample_controller)
                 [(1, SetReady False), (0, ResizeToWidth 250), (2, SetReady True)])
        1 [EditScope 0]
      = [EditScope 0, EditScope 1]"
proof -
  have h: "(1::nat) < length (categories sample_controller)"
    by (simp add: sample_controller_def)
  show ?thesis
    using h row_click_edits_own_scope [OF h, of sample_style sample_toolkit
        "[(1, SetReady False), (0, ResizeToWidth 250), (2, SetReady True)]" "[EditScope 0]"]
    by simp
qed

text \<open>
  C8. When the controller supplies no category, the form has no row, the layout holds
  only the fixed children (userpic, the two about labels, the divider, the header and
  the policy label), and a click on the submit button still calls \<open>submitForm\<close>.
\<close>

theorem no_categories_no_rows:
  fixes ctl :: PanelController
  defines "ctl0 \<equiv> ctl\<lparr>categories := []\<rparr>"
  shows "rows (PanelForm_ctor st tk ctl0) = []
   \<and> inner (PanelForm_ctor st tk ctl0) =
       [ UserpicWrap (ctl_bot ctl),
         Label \<lparr> label_text = Lng_passport_request1 (peerName (ctl_bot ctl)),
                 label_init = Simple, label_st = PassportPasswordLabelBold, label_links = [] \<rparr>,
         Label \<lparr> label_text = Lng_passport_request2, label_init = Simple,
                 label_st = PassportPasswordLabel, label_links = [] \<rparr>,
         Divider,
         Label \<lparr> label_text = Lng_passport_header, label_init = Simple,
                 label_st = PassportFormHeader, label_links = [] \<rparr>,
         Label (policy_label ctl) ]
   \<and> clickSubmit (PanelForm_ctor st tk ctl0) trace = trace @ [SubmitForm]"
  unfolding ctl0_def
  by (simp add: PanelForm_ctor_def setupControls_def setupContent_def fillRows_def Let_def
      clickSubmit_def click_def policy_label_def)

text \<open>
  C7. When the controller's privacy policy URL is empty, the policy label shows the
  allow phrase and carries no link; when it is not empty, the label shows the
  accept-and-allow phrase, whose policy part is link 1, and link 1 opens exactly that
  URL. The label is the last child of the form's layout.
\<close>

theorem policy_label_branches:
  "(privacyPolicyUrl ctl = [] \<longrightarrow>
      policy_label ctl =
        \<lparr> label_text = Lng_passport_allow (CHR ''@'' # username (ctl_bot ctl)),
          label_init = Rich, label_st = PassportFormPolicy, label_links = [] \<rparr>)
   \<and> (privacyPolicyUrl ctl \<noteq> [] \<longrightarrow>
      policy_label ctl =
        \<lparr> label_text = Lng_passport_accept_allow
                         (TextcmdLink 1 (Lng_passport_policy (peerName (ctl_bot ctl))))
                         (CHR ''@'' # username (ctl_bot ctl)),
          label_init = Rich, label_st = PassportFormPolicy,
          label_links = [(1, UrlClickHandler (privacyPolicyUrl ctl))] \<rparr>)
   \<and> last (inner (PanelForm_ctor st tk ctl)) = Label (policy_label ctl)"
  by (simp add: policy_label_def setLink_def Let_def PanelForm_ctor_inner)

theorem policy_label_branches_witness:
  "privacyPolicyUrl sample_controller \<noteq> []
   \<and> policy_label sample_controller =
        \<lparr> label_text = Lng_passport_accept_allow
                         (TextcmdLink 1 (Lng_passport_policy ''Shop'')) ''@shopbot'',
          label_init = Rich, label_st = PassportFormPolicy,
          label_links = [(1, UrlClickHandler ''https://example.org/p'')] \<rparr>
   \<and> privacyPolicyUrl (sample_controller\<lparr>privacyPolicyUrl := []\<rparr>) = []
   \<and> policy_label (sample_controller\<lparr>privacyPolicyUrl := []\<rparr>) =
        \<lparr> label_text = Lng_passport_allow ''@shopbot'',
          label_init = Rich, label_st = PassportFormPolicy, label_links = [] \<rparr>"
proof -
  have full: "privacyPolicyUrl sample_controller \<noteq> []"
    by (simp add: sample_controller_def)
  have none: "privacyPolicyUrl (sample_controller\<lparr>privacyPolicyUrl := []\<rparr>) = []"
    by simp
  note a = policy_label_branches
    [where ctl = sample_controller and st = sample_style and tk = sample_toolkit]
  note b = policy_label_branches
    [where ctl = "sample_controller\<lparr>privacyPolicyUrl := []\<rparr>"
       and st = sample_style and tk = sample_toolkit]
  from a full have "policy_label sample_controller =
        \<lparr> label_text = Lng_passport_accept_allow
                         (TextcmdLink 1 (Lng_passport_policy ''Shop'')) ''@shopbot'',
          label_init = Rich, label_st = PassportFormPolicy,
          label_links = [(1, UrlClickHandler ''https://example.org/p'')] \<rparr>"
    by (simp add: sample_controller_def)
  moreover from b none have "policy_label (sample_controller\<lparr>privacyPolicyUrl := []\<rparr>) =
        \<lparr> label_text = Lng_passport_allow ''@shopbot'',
          label_init = Rich, label_st = PassportFormPolicy, label_links = [] \<rparr>"
    by (simp add: sample_controller_def)
  ultimately show ?thesis
    using full none by blast
qed

end
